theory Spec2Isabelle
  imports Complex_Main "HOL-Library.AList"
begin

section \<open>JavaScript values\<close>

text \<open>
  The console page (\<^verbatim>\<open>ConsolePage\<close>) receives parsed JSON from the protocol layer and from
  HTTP responses, typed \<^verbatim>\<open>any\<close> in the source. A value is modelled as a JSON tree with the
  extra value \<^verbatim>\<open>undefined\<close>. Numbers are doubles in the source; the model keeps them as exact
  rationals plus \<^verbatim>\<open>NaN\<close>. An object is an association list with distinct keys, in the
  order in which JavaScript enumerates its own properties.
\<close>

datatype jsnum = Num rat | NaN

datatype js =
    JUndefined
  | JNull
  | JBool bool
  | JNumber jsnum
  | JString string
  | JArray "js list"
  | JObject "(string \<times> js) list"

type_synonym js_object = "(string \<times> js) list"

text \<open>
  A thrown value: an \<^verbatim>\<open>Error\<close> object with its name and message, or a value that is not
  an \<^verbatim>\<open>Error\<close> and has neither property.
\<close>

datatype exn = JsError string string | NonError

text \<open>
  The \<^verbatim>\<open>TypeError\<close> of a property read on \<^verbatim>\<open>undefined\<close> or \<^verbatim>\<open>null\<close>, and of a call of
  something that is not a function. The message text is the engine's; the property name stands
  for it.
\<close>

definition type_error :: "string \<Rightarrow> exn" where
  "type_error what = JsError ''TypeError'' what"

text \<open>\<^verbatim>\<open>if (v)\<close>: JavaScript truthiness.\<close>

fun truthy :: "js \<Rightarrow> bool" where
  "truthy JUndefined = False"
| "truthy JNull = False"
| "truthy (JBool b) = b"
| "truthy (JNumber (Num r)) = (r \<noteq> 0)"
| "truthy (JNumber NaN) = False"
| "truthy (JString s) = (s \<noteq> [])"
| "truthy (JArray xs) = True"
| "truthy (JObject kvs) = True"

text \<open>
  \<^verbatim>\<open>v.k\<close> for the property names the source reads (\<^verbatim>\<open>name\<close>, \<^verbatim>\<open>reset_seconds\<close>,
  \<^verbatim>\<open>current\<close>, \<^verbatim>\<open>current_units\<close>, \<^verbatim>\<open>temperature_2m\<close>, \<^verbatim>\<open>wind_speed_10m\<close>,
  \<^verbatim>\<open>datetime\<close>): a read on \<^verbatim>\<open>undefined\<close> or \<^verbatim>\<open>null\<close> throws, a read on an object
  gives the own property or \<^verbatim>\<open>undefined\<close>, and no primitive or array of parsed JSON has one
  of these properties.
\<close>

fun get_prop :: "js \<Rightarrow> string \<Rightarrow> exn + js" where
  "get_prop JUndefined k = Inl (type_error k)"
| "get_prop JNull k = Inl (type_error k)"
| "get_prop (JObject kvs) k = Inr (case map_of kvs k of None \<Rightarrow> JUndefined | Some v \<Rightarrow> v)"
| "get_prop v k = Inr JUndefined"

text \<open>
  \<^verbatim>\<open>ToNumber\<close>, as the division \<^verbatim>\<open>x / 60\<close> applies it. The conversion of a string, an array
  or an object parses text and is not modelled: the caller supplies it as \<open>coerce\<close>.
\<close>

fun to_number :: "(js \<Rightarrow> jsnum) \<Rightarrow> js \<Rightarrow> jsnum" where
  "to_number coerce JUndefined = NaN"
| "to_number coerce JNull = Num 0"
| "to_number coerce (JBool b) = Num (if b then 1 else 0)"
| "to_number coerce (JNumber n) = n"
| "to_number coerce v = coerce v"

text \<open>
  \<^verbatim>\<open>Math.ceil(x / 60)\<close>, on the exact quotient. The source divides doubles: the model has
  no rounding, no underflow (a positive \<^verbatim>\<open>x\<close> so small that \<^verbatim>\<open>x / 60\<close> rounds to zero),
  no infinity and no negative zero. For an integral number of seconds below \<open>2 ^ 53\<close> the
  two agree.
\<close>

fun ceil_div_60 :: "jsnum \<Rightarrow> jsnum" where
  "ceil_div_60 NaN = NaN"
| "ceil_div_60 (Num r) = Num (of_int \<lceil>r / 60\<rceil>)"

text \<open>
  The own enumerable properties an object spread \<^verbatim>\<open>{...v}\<close> copies. The source spreads only
  objects.
\<close>

fun own_props :: "js \<Rightarrow> js_object" where
  "own_props (JObject kvs) = kvs"
| "own_props v = []"

section \<open>The state of the console page\<close>

datatype event_source = Client | Server

text \<open>
  The envelope \<^verbatim>\<open>event\<close> of a realtime event: the protocol layer gives it a string
  \<^verbatim>\<open>type\<close> (\<open>None\<close> when the property is absent) and, for a rate-limit update, a
  \<^verbatim>\<open>rate_limits\<close> property of any shape (\<open>JUndefined\<close> when absent).
\<close>

record event_body =
  ev_type :: "string option"
  rate_limits :: js

text \<open>\<^verbatim>\<open>interface RealtimeEvent { time; source; count?; event }\<close>\<close>

record realtime_event =
  ev_time :: string
  ev_source :: event_source
  count :: "nat option"
  event :: event_body

text \<open>\<^verbatim>\<open>interface Coordinates\<close>; a temperature or wind speed is a value with its units.\<close>

record coordinates =
  lat :: js
  lng :: js
  location :: js
  temperature :: "(js \<times> js) option"
  wind_speed :: "(js \<times> js) option"

text \<open>
  A conversation item as the page reads it: its id, its status, the samples of
  \<^verbatim>\<open>formatted.audio\<close> and the decoded file \<^verbatim>\<open>formatted.file\<close>, which holds the number
  of the decoding that produced it.
\<close>

record item =
  item_id :: string
  status :: string
  formatted_audio :: "int list"
  formatted_file :: "nat option"

text \<open>An option of \<^verbatim>\<open>client.updateSession\<close>, as the page sets it.\<close>

datatype session_patch =
    SetModalities "string list"
  | SetTurnDetection "string option"

text \<open>The calls the page makes on its collaborators and on the browser, in order.\<close>

datatype action =
    UpdateSession session_patch
  | SendUserMessageContent string
  | ClientConnect
  | ClientDisconnect
  | CancelResponse string nat
  | CreateResponse
  | AppendInputAudio "int list"
  | RecorderBegin
  | RecorderRecord
  | RecorderPause
  | RecorderEnd
  | PlayerConnect
  | PlayerInterrupt
  | PlayerAdd16BitPCM "int list" string
  | WavDecode "int list"
  | FetchPost string js
  | FetchWeather js js
  | FetchTime string
  | LocalStorageSetItem string js
  | ConsoleLog string
  | ConsoleWarn string
  | ConsoleError string
  | SetTimeout nat

text \<open>
  Modelled from the spec: the capture pipeline \<^verbatim>\<open>WavRecorder\<close> (\<^verbatim>\<open>src/lib/wavtools\<close>) is
  missing from the sources. Section 4.2: \<^verbatim>\<open>begin()\<close> acquires the input device, idempotent
  if already begun; \<^verbatim>\<open>record(onFrame)\<close> starts continuous capture, invoking the callback for
  every buffer until \<^verbatim>\<open>pause()\<close> or \<^verbatim>\<open>end()\<close>; \<^verbatim>\<open>pause()\<close> stops delivery without
  releasing the device; \<^verbatim>\<open>end()\<close> releases the device.
\<close>

record recorder =
  device_acquired :: bool
  delivering :: bool

definition recorder_begin :: "recorder \<Rightarrow> recorder" where
  "recorder_begin r = r\<lparr>device_acquired := True\<rparr>"

definition recorder_record :: "recorder \<Rightarrow> recorder" where
  "recorder_record r = r\<lparr>delivering := True\<rparr>"

definition recorder_pause :: "recorder \<Rightarrow> recorder" where
  "recorder_pause r = r\<lparr>delivering := False\<rparr>"

definition recorder_end :: "recorder \<Rightarrow> recorder" where
  "recorder_end r = r\<lparr>device_acquired := False, delivering := False\<rparr>"

text \<open>
  Modelled from the spec: the protocol session \<^verbatim>\<open>RealtimeClient\<close> is an external library.
  Section 6: \<^verbatim>\<open>connect()/disconnect()\<close>, \<^verbatim>\<open>updateSession(config)\<close> with the options
  \<^verbatim>\<open>modalities\<close> and \<^verbatim>\<open>turn_detection\<close>, and the conversation items it reports. A
  turn detection of \<open>None\<close> is \<^verbatim>\<open>null\<close> (manual).
\<close>

record client_state =
  connected :: bool
  session_modalities :: "string list"
  session_turn_detection :: "string option"
  conversation :: "item list"

fun apply_patch :: "session_patch \<Rightarrow> client_state \<Rightarrow> client_state" where
  "apply_patch (SetModalities ms) cl = cl\<lparr>session_modalities := ms\<rparr>"
| "apply_patch (SetTurnDetection td) cl = cl\<lparr>session_turn_detection := td\<rparr>"

text \<open>
  The React state of \<^verbatim>\<open>ConsolePage\<close> (\<^verbatim>\<open>useState\<close>), its collaborators (\<^verbatim>\<open>useRef\<close>), the
  clock and the pending \<^verbatim>\<open>setTimeout\<close> callbacks (each the due time of a reconnect attempt,
  the only callback the page schedules), and the calls made so far.
\<close>

record console =
  isConnected :: bool
  realtimeEvents :: "realtime_event list"
  items :: "item list"
  memoryKv :: js_object
  coords :: "coordinates option"
  marker :: "coordinates option"
  userInput :: string
  isRecording :: bool
  canPushToTalk :: bool
  startTime :: nat
  wavRecorder :: recorder
  client :: client_state
  decodings :: nat
  now :: nat
  timers :: "nat list"
  calls :: "action list"

definition call :: "action \<Rightarrow> console \<Rightarrow> console" where
  "call a c = c\<lparr>calls := calls c @ [a]\<rparr>"

text \<open>\<^verbatim>\<open>client.updateSession(patch)\<close>\<close>

definition updateSession :: "session_patch \<Rightarrow> console \<Rightarrow> console" where
  "updateSession p c = call (UpdateSession p) (c\<lparr>client := apply_patch p (client c)\<rparr>)"

section \<open>The event aggregator: \<^verbatim>\<open>client.on('realtime.event', ...)\<close>\<close>

text \<open>
  \<^verbatim>\<open>rate_limits.find((limit) => limit.name === 'requests')\<close> on the elements of an array:
  the first element whose \<^verbatim>\<open>name\<close> is the string \<^verbatim>\<open>requests\<close>, \<^verbatim>\<open>undefined\<close> when
  there is none; the read of \<^verbatim>\<open>name\<close> throws on a \<^verbatim>\<open>null\<close> element.
\<close>

fun find_requests :: "js list \<Rightarrow> exn + js" where
  "find_requests [] = Inr JUndefined"
| "find_requests (limit # rest) =
     (case get_prop limit ''name'' of
        Inl e \<Rightarrow> Inl e
      | Inr n \<Rightarrow> if n = JString ''requests'' then Inr limit else find_requests rest)"

text \<open>
  \<^verbatim>\<open>{ ...requestsLimit, reset_minutes: Math.ceil(requestsLimit.reset_seconds / 60),
  reset_seconds: undefined }\<close>: the property \<^verbatim>\<open>reset_seconds\<close> stays, with the value
  \<^verbatim>\<open>undefined\<close>.
\<close>

definition formattedLimit :: "(js \<Rightarrow> jsnum) \<Rightarrow> js \<Rightarrow> js_object" where
  "formattedLimit coerce requestsLimit =
     (let reset_seconds = (case map_of (own_props requestsLimit) ''reset_seconds'' of
                             None \<Rightarrow> JUndefined | Some v \<Rightarrow> v)
      in AList.update ''reset_seconds'' JUndefined
           (AList.update ''reset_minutes'' (JNumber (ceil_div_60 (to_number coerce reset_seconds)))
              (own_props requestsLimit)))"

text \<open>
  The rate-limit side effect of the handler: guarded by the event type and a truthy
  \<^verbatim>\<open>rate_limits\<close>; \<^verbatim>\<open>.find\<close> is a function only on an array; a found entry is published
  under the key \<^verbatim>\<open>requests_rate_limit\<close>.
\<close>

definition rate_limit_projection :: "(js \<Rightarrow> jsnum) \<Rightarrow> realtime_event \<Rightarrow> console \<Rightarrow> exn + console" where
  "rate_limit_projection coerce realtimeEvent c =
     (if ev_type (event realtimeEvent) = Some ''rate_limits.updated''
         \<and> truthy (rate_limits (event realtimeEvent))
      then (case rate_limits (event realtimeEvent) of
              JArray limits \<Rightarrow>
                (case find_requests limits of
                   Inl e \<Rightarrow> Inl e
                 | Inr requestsLimit \<Rightarrow>
                     if truthy requestsLimit
                     then Inr (c\<lparr>memoryKv := AList.update ''requests_rate_limit''
                                   (JObject (formattedLimit coerce requestsLimit)) (memoryKv c)\<rparr>)
                     else Inr c)
            | _ \<Rightarrow> Inl (type_error ''find''))
      else Inr c)"

text \<open>\<^verbatim>\<open>(lastEvent.count || 0) + 1\<close>\<close>

definition bump_count :: "nat option \<Rightarrow> nat" where
  "bump_count k = (case k of None \<Rightarrow> 0 | Some n \<Rightarrow> n) + 1"

text \<open>
  The handler, with the state updater of \<^verbatim>\<open>setRealtimeEvents\<close> inlined.
  \<^verbatim>\<open>lastEvent?.event.type\<close> is \<^verbatim>\<open>undefined\<close> on an empty log, and equal to the type of an
  event that has none: the write to \<^verbatim>\<open>lastEvent.count\<close> then throws. The two side effects
  stand in the branch that appends.
\<close>

definition on_realtime_event :: "(js \<Rightarrow> jsnum) \<Rightarrow> realtime_event \<Rightarrow> console \<Rightarrow> exn + console" where
  "on_realtime_event coerce realtimeEvent c =
     (let evs = realtimeEvents c;
          last_type = (if evs = [] then None else ev_type (event (last evs)))
      in if last_type = ev_type (event realtimeEvent)
         then (if evs = [] then Inl (type_error ''count'')
               else Inr (c\<lparr>realtimeEvents :=
                            butlast evs @ [(last evs)\<lparr>count := Some (bump_count (count (last evs)))\<rparr>]\<rparr>))
         else (let c1 = (if ev_type (event realtimeEvent) = Some ''input_audio_buffer.speech_started''
                         then updateSession (SetModalities [''audio'', ''text'']) c else c)
               in case rate_limit_projection coerce realtimeEvent c1 of
                    Inl e \<Rightarrow> Inl e
                  | Inr c2 \<Rightarrow> Inr (c2\<lparr>realtimeEvents := realtimeEvents c2 @ [realtimeEvent]\<rparr>)))"

text \<open>A sequence of events, handled in arrival order; an exception ends the run.\<close>

fun on_realtime_events :: "(js \<Rightarrow> jsnum) \<Rightarrow> realtime_event list \<Rightarrow> console \<Rightarrow> exn + console" where
  "on_realtime_events coerce [] c = Inr c"
| "on_realtime_events coerce (e # es) c =
     (case on_realtime_event coerce e c of
        Inl x \<Rightarrow> Inl x
      | Inr c' \<Rightarrow> on_realtime_events coerce es c')"

text \<open>
  The run-length view of the log, in the words of the aggregation rule: each maximal run of
  consecutive events of one type is one entry, the first event of the run, standing where the
  run began; a run of one event is the event as it came, and a run of \<open>k + 1\<close> events has
  the count of its first event (zero when it has none) raised by \<open>k\<close>.
\<close>

definition count_or_0 :: "nat option \<Rightarrow> nat" where
  "count_or_0 k = (case k of None \<Rightarrow> 0 | Some n \<Rightarrow> n)"

function collapse_runs :: "realtime_event list \<Rightarrow> realtime_event list" where
  "collapse_runs [] = []"
| "collapse_runs (e # es) =
     (let same = (\<lambda>x. ev_type (event x) = ev_type (event e));
          k = length (takeWhile same es)
      in (if k = 0 then e else e\<lparr>count := Some (count_or_0 (count e) + k)\<rparr>)
         # collapse_runs (dropWhile same es))"
  by pat_completeness auto
termination
  by (relation "measure length") (auto simp: length_dropWhile_le le_imp_less_Suc)

text \<open>
  The events on which the handler does not throw: the event has a type, and the rate-limit
  side effect finds an array whose elements before the first \<^verbatim>\<open>requests\<close> entry are not
  \<^verbatim>\<open>null\<close>.
\<close>

definition projection_ok :: "realtime_event \<Rightarrow> bool" where
  "projection_ok e =
     (if ev_type (event e) = Some ''rate_limits.updated'' \<and> truthy (rate_limits (event e))
      then (case rate_limits (event e) of
              JArray limits \<Rightarrow> (case find_requests limits of Inl x \<Rightarrow> False | Inr r \<Rightarrow> True)
            | _ \<Rightarrow> False)
      else True)"

definition well_shaped :: "realtime_event \<Rightarrow> bool" where
  "well_shaped e = (ev_type (event e) \<noteq> None \<and> projection_ok e)"

section \<open>Text input: \<^verbatim>\<open>sendUserInput\<close>\<close>

text \<open>
  \<^verbatim>\<open>String.prototype.trim\<close> removes white space and line terminators from both ends. A
  string of the model is a list of 8-bit characters, read as code points below 256: tab, line
  feed, vertical tab, form feed, carriage return, space and no-break space are the white space
  there.
\<close>

definition js_whitespace :: "char \<Rightarrow> bool" where
  "js_whitespace ch = ((of_char ch :: nat) \<in> {9, 10, 11, 12, 13, 32, 160})"

definition trim :: "string \<Rightarrow> string" where
  "trim s = rev (dropWhile js_whitespace (rev (dropWhile js_whitespace s)))"

definition sendUserInput :: "console \<Rightarrow> console" where
  "sendUserInput c =
     (if trim (userInput c) = [] then c
      else if connected (client c)
      then (let c1 = updateSession (SetModalities [''text'']) c;
                c2 = call (SendUserMessageContent (trim (userInput c))) c1
            in c2\<lparr>userInput := []\<rparr>)
      else call (ConsoleError ''Client is not connected'') c)"

section \<open>Connection lifecycle\<close>

text \<open>
  The three acquisitions \<^verbatim>\<open>connectConversation\<close> awaits; each either succeeds (\<open>None\<close>)
  or rejects with an exception.
\<close>

record connect_env =
  microphone :: "exn option"
  speaker :: "exn option"
  transport :: "exn option"

text \<open>
  \<^verbatim>\<open>connectConversation\<close>: the state is set before the first acquisition, and an
  acquisition that rejects leaves what was done before it in place. The result is the
  exception of the rejected promise, if any.
\<close>

definition connectConversation :: "connect_env \<Rightarrow> console \<Rightarrow> exn option \<times> console" where
  "connectConversation env c =
     (let c1 = c\<lparr>startTime := now c, isConnected := True, realtimeEvents := [],
                 items := conversation (client c)\<rparr>;
          c2 = call RecorderBegin c1
      in case microphone env of
           Some e \<Rightarrow> (Some e, c2)
         | None \<Rightarrow>
            (let c3 = call PlayerConnect (c2\<lparr>wavRecorder := recorder_begin (wavRecorder c2)\<rparr>)
             in case speaker env of
                  Some e \<Rightarrow> (Some e, c3)
                | None \<Rightarrow>
                   (let c4 = call ClientConnect c3
                    in case transport env of
                         Some e \<Rightarrow> (Some e, c4)
                       | None \<Rightarrow>
                          (let c5 = call (SendUserMessageContent ''Hello!'')
                                      (c4\<lparr>client := (client c4)\<lparr>connected := True\<rparr>\<rparr>)
                           in if session_turn_detection (client c5) = Some ''server_vad''
                              then (None, call RecorderRecord
                                            (c5\<lparr>wavRecorder := recorder_record (wavRecorder c5)\<rparr>))
                              else (None, c5)))))"

definition default_coords :: coordinates where
  "default_coords =
     \<lparr>lat = JNumber (Num (37775593 / 1000000)), lng = JNumber (Num (- 122418137 / 1000000)),
      location = JUndefined, temperature = None, wind_speed = None\<rparr>"

text \<open>
  \<^verbatim>\<open>disconnectConversation\<close>. Nothing in it reads or clears a pending timer: the handle
  \<^verbatim>\<open>setTimeout\<close> returns is not kept anywhere in the page.
\<close>

definition disconnectConversation :: "console \<Rightarrow> console" where
  "disconnectConversation c =
     (let c1 = c\<lparr>isConnected := False, realtimeEvents := [], items := [], memoryKv := [],
                 coords := Some default_coords, marker := None\<rparr>;
          c2 = call ClientDisconnect (c1\<lparr>client := (client c1)\<lparr>connected := False\<rparr>\<rparr>);
          c3 = call RecorderEnd (c2\<lparr>wavRecorder := recorder_end (wavRecorder c2)\<rparr>)
      in call PlayerInterrupt c3)"

text \<open>
  \<^verbatim>\<open>client.on('disconnected', ...)\<close>: logs, clears the connected flag and schedules the
  reconnect callback 3000 milliseconds from now.
\<close>

definition on_disconnected :: "console \<Rightarrow> console" where
  "on_disconnected c =
     (let c1 = call (ConsoleLog ''Disconnected, attempting to reconnect in 3 seconds...'') c;
          c2 = c1\<lparr>isConnected := False\<rparr>
      in (call (SetTimeout 3000) c2)\<lparr>timers := timers c2 @ [now c2 + 3000]\<rparr>)"

text \<open>The scheduled callback: \<^verbatim>\<open>try { await connectConversation() } catch { console.error }\<close>.\<close>

definition reconnect_attempt :: "connect_env \<Rightarrow> console \<Rightarrow> console" where
  "reconnect_attempt env c =
     (case connectConversation env c of
        (None, c') \<Rightarrow> c'
      | (Some e, c') \<Rightarrow> call (ConsoleError ''Auto-reconnection failed:'') c')"

text \<open>
  The event loop when \<open>d\<close> milliseconds pass: every pending callback that is due runs, in
  the order it was scheduled, and leaves the list of pending callbacks.
\<close>

definition advance_time :: "connect_env \<Rightarrow> nat \<Rightarrow> console \<Rightarrow> console" where
  "advance_time env d c =
     (let c1 = c\<lparr>now := now c + d\<rparr>;
          due = filter (\<lambda>t. t \<le> now c1) (timers c1);
          c2 = c1\<lparr>timers := filter (\<lambda>t. \<not> t \<le> now c1) (timers c1)\<rparr>
      in fold (\<lambda>t. reconnect_attempt env) due c2)"

section \<open>Capture: push-to-talk and turn detection\<close>

text \<open>
  The callback \<^verbatim>\<open>(data) => client.appendInputAudio(data.mono)\<close> given to
  \<^verbatim>\<open>wavRecorder.record\<close>: the recorder invokes it for a frame only while it delivers.
\<close>

definition deliver_frame :: "int list \<Rightarrow> console \<Rightarrow> console" where
  "deliver_frame frame c =
     (if delivering (wavRecorder c) then call (AppendInputAudio frame) c else c)"

text \<open>
  \<^verbatim>\<open>startRecording\<close>, cut at its \<^verbatim>\<open>await\<close>s, where other callbacks of the event loop can
  run: up to the call of \<^verbatim>\<open>wavStreamPlayer.interrupt()\<close>; from its result to the call of
  \<^verbatim>\<open>client.cancelResponse\<close>; and the call of \<^verbatim>\<open>wavRecorder.record\<close>. The result of
  \<^verbatim>\<open>interrupt()\<close> is \<open>None\<close> for nothing, or the track id (\<open>None\<close> for \<^verbatim>\<open>null\<close>) and the
  sample offset; \<^verbatim>\<open>trackSampleOffset?.trackId\<close> is truthy for a non-empty track id.
\<close>

definition startRecording_interrupt :: "console \<Rightarrow> console" where
  "startRecording_interrupt c = call PlayerInterrupt (c\<lparr>isRecording := True\<rparr>)"

definition startRecording_cancel :: "(string option \<times> nat) option \<Rightarrow> console \<Rightarrow> console" where
  "startRecording_cancel trackSampleOffset c =
     (case trackSampleOffset of
        Some (Some trackId, offset) \<Rightarrow> if trackId \<noteq> [] then call (CancelResponse trackId offset) c else c
      | _ \<Rightarrow> c)"

definition startRecording_record :: "console \<Rightarrow> console" where
  "startRecording_record c = call RecorderRecord (c\<lparr>wavRecorder := recorder_record (wavRecorder c)\<rparr>)"

definition startRecording :: "(string option \<times> nat) option \<Rightarrow> console \<Rightarrow> console" where
  "startRecording trackSampleOffset c =
     startRecording_record (startRecording_cancel trackSampleOffset (startRecording_interrupt c))"

text \<open>\<^verbatim>\<open>stopRecording\<close>\<close>

definition stopRecording :: "console \<Rightarrow> console" where
  "stopRecording c =
     call CreateResponse
       (call RecorderPause (c\<lparr>isRecording := False, wavRecorder := recorder_pause (wavRecorder c)\<rparr>))"

text \<open>
  \<^verbatim>\<open>changeTurnEndType(value)\<close>; \<^verbatim>\<open>wavRecorder.getStatus() === 'recording'\<close> holds while the
  recorder delivers.
\<close>

definition changeTurnEndType :: "string \<Rightarrow> console \<Rightarrow> console" where
  "changeTurnEndType v c =
     (let c1 = (if v = ''none'' \<and> delivering (wavRecorder c)
                then call RecorderPause (c\<lparr>wavRecorder := recorder_pause (wavRecorder c)\<rparr>)
                else c);
          c2 = updateSession (SetTurnDetection (if v = ''none'' then None else Some ''server_vad'')) c1;
          c3 = (if v = ''server_vad'' \<and> connected (client c2)
                then call RecorderRecord (c2\<lparr>wavRecorder := recorder_record (wavRecorder c2)\<rparr>)
                else c2)
      in c3\<lparr>canPushToTalk := (v = ''none'')\<rparr>)"

section \<open>Conversation items: \<^verbatim>\<open>client.on('conversation.updated', ...)\<close>\<close>

text \<open>
  The handler receives the item (an object of the client's conversation, which it mutates in
  place) and the audio of the delta, if any. A typed array is truthy even when empty;
  \<^verbatim>\<open>item.formatted.audio?.length\<close> is truthy for a non-empty one. Each call of
  \<^verbatim>\<open>WavRecorder.decode\<close> gives a new file object, numbered by \<open>decodings\<close>.
\<close>

definition on_conversation_updated :: "item \<Rightarrow> int list option \<Rightarrow> console \<Rightarrow> console" where
  "on_conversation_updated it delta_audio c =
     (let c1 = (case delta_audio of
                  Some audio \<Rightarrow> call (PlayerAdd16BitPCM audio (item_id it)) c
                | None \<Rightarrow> c);
          decode = (status it = ''completed'' \<and> formatted_audio it \<noteq> []);
          c2 = (if decode
                then (call (WavDecode (formatted_audio it)) c1)\<lparr>decodings := decodings c1 + 1\<rparr>
                else c1);
          it' = (if decode then it\<lparr>formatted_file := Some (decodings c1)\<rparr> else it);
          conv = map (\<lambda>i. if item_id i = item_id it then it' else i) (conversation (client c2))
      in c2\<lparr>client := (client c2)\<lparr>conversation := conv\<rparr>, items := conv\<rparr>)"

text \<open>The number of decodings among the calls made.\<close>

fun is_decode :: "action \<Rightarrow> bool" where
  "is_decode (WavDecode audio) = True"
| "is_decode a = False"

definition decode_count :: "console \<Rightarrow> nat" where
  "decode_count c = length (filter is_decode (calls c))"

section \<open>Tools: \<^verbatim>\<open>client.addTool(descriptor, handler)\<close>\<close>

text \<open>
  What a \<^verbatim>\<open>fetch\<close> resolves with: \<^verbatim>\<open>response.ok\<close>, \<^verbatim>\<open>response.status\<close> and the result of
  \<^verbatim>\<open>response.json()\<close>, which rejects on a body that is not JSON.
\<close>

record response =
  resp_ok :: bool
  resp_status :: nat
  resp_json :: "exn + js"

text \<open>
  What the handlers meet outside the page: the constant \<^verbatim>\<open>LOCAL_RELAY_SERVER_URL\<close>, the
  outcome of each \<^verbatim>\<open>fetch\<close> (a rejection or a response), and the exception of
  \<^verbatim>\<open>localStorage.setItem\<close>, if it throws.
\<close>

record tool_env =
  relay_server_url :: string
  relay_post :: "exn + response"
  memory_post :: "exn + response"
  storage_set :: "exn option"
  weather_get :: "exn + response"
  time_get :: "exn + response"

text \<open>\<^verbatim>\<open>error?.message || 'Unknown error'\<close>\<close>

definition message_or_unknown :: "exn \<Rightarrow> string" where
  "message_or_unknown e =
     (case e of JsError n m \<Rightarrow> if m \<noteq> [] then m else ''Unknown error'' | NonError \<Rightarrow> ''Unknown error'')"

text \<open>\<^verbatim>\<open>s.includes(sub)\<close>\<close>

fun js_includes :: "string \<Rightarrow> string \<Rightarrow> bool" where
  "js_includes [] sub = (sub = [])"
| "js_includes (x # xs) sub = (take (length sub) (x # xs) = sub \<or> js_includes xs sub)"

text \<open>\<^verbatim>\<open>error?.name === 'TypeError' && error?.message?.includes('Failed to fetch')\<close>\<close>

definition failed_to_fetch :: "exn \<Rightarrow> bool" where
  "failed_to_fetch e =
     (case e of JsError n m \<Rightarrow> n = ''TypeError'' \<and> js_includes m ''Failed to fetch'' | NonError \<Rightarrow> False)"

text \<open>
  The order of the own properties of an object: the keys that are array indices (the decimal
  numeral of a number up to \<open>2 ^ 32 - 2\<close>, without a leading zero) come first, in
  ascending order, and the other keys follow in the order of their creation.
\<close>

definition js_digit :: "char \<Rightarrow> bool" where
  "js_digit ch = (48 \<le> (of_char ch :: nat) \<and> (of_char ch :: nat) \<le> 57)"

definition digits_value :: "string \<Rightarrow> nat" where
  "digits_value s = foldl (\<lambda>n ch. 10 * n + (of_char ch - 48)) 0 s"

definition array_index :: "string \<Rightarrow> nat option" where
  "array_index k =
     (if k \<noteq> [] \<and> list_all js_digit k \<and> (length k = 1 \<or> hd k \<noteq> CHR ''0'')
         \<and> digits_value k < 4294967295
      then Some (digits_value k) else None)"

definition before_index :: "nat \<Rightarrow> string \<times> js \<Rightarrow> bool" where
  "before_index n p = (case array_index (fst p) of Some m \<Rightarrow> m < n | None \<Rightarrow> False)"

text \<open>
  The definition of the own property \<open>k\<close> of an object kept in that order: an existing
  property keeps its place; a new array index goes after the smaller indices; any other new key
  goes last.
\<close>

definition js_define :: "js_object \<Rightarrow> string \<Rightarrow> js \<Rightarrow> js_object" where
  "js_define obj k v =
     (if k \<in> set (map fst obj) then AList.update k v obj
      else case array_index k of
             None \<Rightarrow> obj @ [(k, v)]
           | Some n \<Rightarrow> takeWhile (before_index n) obj @ [(k, v)] @ dropWhile (before_index n) obj)"

text \<open>
  \<^verbatim>\<open>newKv[key] = value\<close> on a copy of the map: an assignment to \<^verbatim>\<open>__proto__\<close> goes to the
  setter of \<^verbatim>\<open>Object.prototype\<close> and creates no property.
\<close>

definition js_assign :: "js_object \<Rightarrow> string \<Rightarrow> js \<Rightarrow> js_object" where
  "js_assign obj k v = (if k = ''__proto__'' then obj else js_define obj k v)"

text \<open>
  One persistence attempt of \<^verbatim>\<open>set_memory\<close> (the source writes the block twice, for the
  relay server and for the memory server): the announcement, the \<^verbatim>\<open>POST\<close> of the map, and
  in the \<^verbatim>\<open>catch\<close> the logged message and the hint. It gives whether \<^verbatim>\<open>saved\<close> was set.
\<close>

definition try_post ::
  "string \<Rightarrow> string \<Rightarrow> exn + response \<Rightarrow> string \<Rightarrow> string \<Rightarrow> js_object \<Rightarrow> console \<Rightarrow> bool \<times> console" where
  "try_post trying url outcome failed hint newMemory c =
     (let c1 = call (FetchPost url (JObject newMemory)) (call (ConsoleLog trying) c)
      in case outcome of
           Inr response \<Rightarrow> (resp_ok response, c1)
         | Inl error \<Rightarrow>
             (let c2 = call (ConsoleError (failed @ message_or_unknown error)) c1
              in (False, if failed_to_fetch error then call (ConsoleError hint) c2 else c2)))"

text \<open>
  The block \<^verbatim>\<open>if (LOCAL_RELAY_SERVER_URL) { ... }\<close> of \<^verbatim>\<open>set_memory\<close>: the flag
  \<^verbatim>\<open>saved\<close> and the page after it.
\<close>

definition relay_block :: "tool_env \<Rightarrow> js_object \<Rightarrow> console \<Rightarrow> bool \<times> console" where
  "relay_block env newMemory c =
     (if relay_server_url env \<noteq> []
      then try_post ''Trying relay server...'' ''http://localhost:8081/api/memory''
             (relay_post env)
             (''Failed to save to relay server ('' @ relay_server_url env @ ''): '')
             ''Relay server may not be running. Start it with: npm run relay'' newMemory c
      else (False, c))"

text \<open>The block \<^verbatim>\<open>if (!saved) { ... }\<close> that follows it.\<close>

definition memory_block :: "tool_env \<Rightarrow> js_object \<Rightarrow> bool \<times> console \<Rightarrow> bool \<times> console" where
  "memory_block env newMemory relay =
     (if \<not> fst relay
      then try_post ''Trying memory server...'' ''http://localhost:8082/memory''
             (memory_post env) ''Failed to save to memory server: ''
             ''Memory server may not be running. Start it with: npm run memory''
             newMemory (snd relay)
      else relay)"

text \<open>
  The handler of \<^verbatim>\<open>set_memory\<close>, for a string \<^verbatim>\<open>key\<close> as its schema declares. The relay
  server is tried when \<^verbatim>\<open>LOCAL_RELAY_SERVER_URL\<close> is set, the memory server when nothing is
  saved yet, and \<^verbatim>\<open>localStorage\<close> always; an exception of \<^verbatim>\<open>localStorage.setItem\<close>
  reaches the outer \<^verbatim>\<open>catch\<close>.
\<close>

definition set_memory :: "tool_env \<Rightarrow> string \<Rightarrow> js \<Rightarrow> console \<Rightarrow> (exn + js) \<times> console" where
  "set_memory env key v c =
     (let newMemory = js_assign (memoryKv c) key v;
          c1 = c\<lparr>memoryKv := newMemory\<rparr>;
          memory = memory_block env newMemory (relay_block env newMemory c1);
          saved = fst memory;
          c4 = call (LocalStorageSetItem ''app_memory'' (JObject newMemory)) (snd memory)
      in case storage_set env of
           Some error \<Rightarrow>
             (Inr (JObject [(''error'', JString ''Failed to save memory'')]),
              call (ConsoleError ''Error saving memory:'') c4)
         | None \<Rightarrow>
             (Inr (JObject [(''ok'', JBool True)]),
              if \<not> saved then call (ConsoleWarn ''Memory saved only to localStorage'') c4 else c4))"

definition and_then :: "exn + 'a \<Rightarrow> ('a \<Rightarrow> exn + 'b) \<Rightarrow> exn + 'b" where
  "and_then r f = (case r of Inl e \<Rightarrow> Inl e | Inr v \<Rightarrow> f v)"

text \<open>\<^verbatim>\<open>v.a.b\<close>\<close>

definition get_path :: "js \<Rightarrow> string \<Rightarrow> string \<Rightarrow> exn + js" where
  "get_path v a b = and_then (get_prop v a) (\<lambda>x. get_prop x b)"

text \<open>The temperature and the wind speed of a forecast, each a value with its units.\<close>

definition weather_readings :: "js \<Rightarrow> exn + ((js \<times> js) \<times> (js \<times> js))" where
  "weather_readings json =
     and_then (get_path json ''current'' ''temperature_2m'') (\<lambda>tv.
     and_then (get_path json ''current_units'' ''temperature_2m'') (\<lambda>tu.
     and_then (get_path json ''current'' ''wind_speed_10m'') (\<lambda>wv.
     and_then (get_path json ''current_units'' ''wind_speed_10m'') (\<lambda>wu.
     Inr ((tv, tu), (wv, wu))))))"

text \<open>
  The handler of \<^verbatim>\<open>get_weather\<close>: it has no \<^verbatim>\<open>try\<close>, so a rejected \<^verbatim>\<open>fetch\<close>, a body
  that is not JSON and a forecast without \<^verbatim>\<open>current\<close> or \<^verbatim>\<open>current_units\<close> reject the
  handler's promise.
\<close>

definition get_weather :: "tool_env \<Rightarrow> js \<Rightarrow> js \<Rightarrow> js \<Rightarrow> console \<Rightarrow> (exn + js) \<times> console" where
  "get_weather env latitude longitude loc c =
     (let here = \<lparr>lat = latitude, lng = longitude, location = loc, temperature = None, wind_speed = None\<rparr>;
          c1 = call (FetchWeather latitude longitude) (c\<lparr>marker := Some here, coords := Some here\<rparr>)
      in case weather_get env of
           Inl e \<Rightarrow> (Inl e, c1)
         | Inr result \<Rightarrow>
            (case resp_json result of
               Inl e \<Rightarrow> (Inl e, c1)
             | Inr json \<Rightarrow>
                (case weather_readings json of
                   Inl e \<Rightarrow> (Inl e, c1)
                 | Inr (temp, wind) \<Rightarrow>
                     (Inr json,
                      c1\<lparr>marker := Some (here\<lparr>temperature := Some temp, wind_speed := Some wind\<rparr>)\<rparr>))))"

definition timezoneMapping :: "(string \<times> string) list" where
  "timezoneMapping =
     [(''New York'', ''America/New_York''), (''Mountain View'', ''America/Los_Angeles''),
      (''Sioux Falls'', ''US/Central''), (''London'', ''Europe/London''),
      (''Tokyo'', ''Asia/Tokyo''), (''UTC'', ''Etc/UTC'')]"

fun show_nat :: "nat \<Rightarrow> string" where
  "show_nat n = (if n < 10 then [char_of (48 + n)] else show_nat (n div 10) @ [char_of (48 + n mod 10)])"

declare show_nat.simps [simp del]

text \<open>
  The body of the \<^verbatim>\<open>try\<close> of \<^verbatim>\<open>get_time\<close>, for a string \<^verbatim>\<open>location\<close> as its schema
  declares and one that names no inherited property of \<^verbatim>\<open>Object.prototype\<close>: the time
  zone is the mapped name or the location itself.
\<close>

definition get_time_try :: "tool_env \<Rightarrow> string \<Rightarrow> console \<Rightarrow> (exn + js) \<times> console" where
  \<open>get_time_try env loc c =
     (let timezone = (case map_of timezoneMapping loc of Some tz \<Rightarrow> tz | None \<Rightarrow> loc)
      in if timezone = [] then (Inl (JsError ''Error'' (''Invalid location: "'' @ loc @ ''".'')), c)
         else
          (let c1 = call (FetchTime timezone) c
           in case time_get env of
                Inl e \<Rightarrow> (Inl e, c1)
              | Inr response \<Rightarrow>
                 if \<not> resp_ok response
                 then (Inl (JsError ''Error''
                         (''Failed to fetch time data. HTTP Status: '' @ show_nat (resp_status response))), c1)
                 else (case resp_json response of
                         Inl e \<Rightarrow> (Inl e, c1)
                       | Inr json \<Rightarrow>
                          (case get_prop json ''datetime'' of
                             Inl e \<Rightarrow> (Inl e, c1)
                           | Inr localTime \<Rightarrow>
                               (Inr (JObject [(''location'', JString loc), (''localTime'', localTime)]),
                                c1\<lparr>memoryKv := js_define (memoryKv c1) loc localTime\<rparr>)))))\<close>

text \<open>The handler of \<^verbatim>\<open>get_time\<close>: its \<^verbatim>\<open>catch\<close> turns every exception into a result.\<close>

definition get_time :: "tool_env \<Rightarrow> string \<Rightarrow> console \<Rightarrow> (exn + js) \<times> console" where
  \<open>get_time env loc c =
     (case get_time_try env loc c of
        (Inr result, c') \<Rightarrow> (Inr result, c')
      | (Inl (JsError n m), c') \<Rightarrow>
          (Inr (JObject [(''error'', JString
                  (''Could not retrieve time for the location "'' @ loc @ ''". Error: '' @ m))]),
           call (ConsoleError ''Error fetching time data:'') c')
      | (Inl NonError, c') \<Rightarrow>
          (Inr (JObject [(''error'', JString
                  (''Could not retrieve time for the location "'' @ loc
                   @ ''". An unexpected error occurred.''))]),
           call (ConsoleError ''Unexpected error fetching time data:'') c'))\<close>

text \<open>A call of one of the four registered tools, with its parameters.\<close>

datatype tool_call =
    Calculator js
  | SetMemory string js
  | GetWeather js js js
  | GetTime string

text \<open>The registered handler of each tool, run to the settlement of its promise.\<close>

fun handler :: "tool_env \<Rightarrow> tool_call \<Rightarrow> console \<Rightarrow> (exn + js) \<times> console" where
  "handler env (Calculator params) c = (Inr (JObject [(''ok'', JNumber (Num 2))]), c)"
| "handler env (SetMemory key v) c = set_memory env key v c"
| "handler env (GetWeather latitude longitude loc) c = get_weather env latitude longitude loc c"
| "handler env (GetTime loc) c = get_time env loc c"

definition exn_message :: "exn \<Rightarrow> js" where
  "exn_message e = (case e of JsError n m \<Rightarrow> JString m | NonError \<Rightarrow> JUndefined)"

text \<open>
  Modelled from the spec: the dispatch boundary. The page only registers handlers; the code
  that calls them (the tool dispatch of the protocol layer) is missing from the sources.
  Section 4.5: on invocation the handler runs; any exception, including one from a network
  call the handler makes, is caught and converted to \<^verbatim>\<open>{error: <message>}\<close>, which becomes
  the tool's result.
\<close>

definition invoke :: "tool_env \<Rightarrow> tool_call \<Rightarrow> console \<Rightarrow> (exn + js) \<times> console" where
  "invoke env t c =
     (case handler env t c of
        (Inr result, c') \<Rightarrow> (Inr result, c')
      | (Inl e, c') \<Rightarrow> (Inr (JObject [(''error'', exn_message e)]), c'))"

definition has_field :: "js \<Rightarrow> string \<Rightarrow> bool" where
  "has_field v k = (case v of JObject kvs \<Rightarrow> k \<in> set (map fst kvs) | _ \<Rightarrow> False)"

section \<open>Example states and inputs\<close>

text \<open>The page as it is mounted: the initial values of its \<^verbatim>\<open>useState\<close> and \<^verbatim>\<open>useRef\<close>.\<close>

definition initial_console :: console where
  "initial_console =
     \<lparr>isConnected = False, realtimeEvents = [], items = [], memoryKv = [],
      coords = Some default_coords, marker = None, userInput = [], isRecording = False,
      canPushToTalk = True, startTime = 0,
      wavRecorder = \<lparr>device_acquired = False, delivering = False\<rparr>,
      client = \<lparr>connected = False, session_modalities = [''text'', ''audio''],
                session_turn_detection = None, conversation = []\<rparr>,
      decodings = 0, now = 0, timers = [], calls = []\<rparr>"

text \<open>An event from the server, with its type and its \<^verbatim>\<open>rate_limits\<close>.\<close>

definition server_event :: "string \<Rightarrow> js \<Rightarrow> realtime_event" where
  "server_event ty limits =
     \<lparr>ev_time = [], ev_source = Server, count = None,
      event = \<lparr>ev_type = Some ty, rate_limits = limits\<rparr>\<rparr>"

text \<open>A rate-limit entry \<^verbatim>\<open>{name: "requests", reset_seconds: secs}\<close>.\<close>

definition requests_limit :: "rat \<Rightarrow> js" where
  "requests_limit secs = JObject [(''name'', JString ''requests''), (''reset_seconds'', JNumber (Num secs))]"

text \<open>A conversion for runs that convert no string, array or object.\<close>

definition nan_coerce :: "js \<Rightarrow> jsnum" where
  "nan_coerce v = NaN"

text \<open>The page with the session open.\<close>

definition connected_console :: console where
  "connected_console =
     initial_console\<lparr>isConnected := True,
       wavRecorder := \<lparr>device_acquired = True, delivering = False\<rparr>,
       client := \<lparr>connected = True, session_modalities = [''text'', ''audio''],
                  session_turn_detection = None, conversation = []\<rparr>\<rparr>"

text \<open>The page with the session open and the recorder capturing (\<^verbatim>\<open>server_vad\<close>).\<close>

definition recording_console :: console where
  "recording_console =
     connected_console\<lparr>wavRecorder := \<lparr>device_acquired = True, delivering = True\<rparr>,
       client := (client connected_console)\<lparr>session_turn_detection := Some ''server_vad''\<rparr>,
       canPushToTalk := False\<rparr>"

text \<open>A completed assistant item with two samples of audio and no decoded file yet.\<close>

definition completed_item :: item where
  "completed_item =
     \<lparr>item_id = ''item_1'', status = ''completed'', formatted_audio = [1, 2],
      formatted_file = None\<rparr>"

text \<open>Every acquisition of \<^verbatim>\<open>connectConversation\<close> succeeds.\<close>

definition all_acquired :: connect_env where
  "all_acquired = \<lparr>microphone = None, speaker = None, transport = None\<rparr>"

text \<open>The page with the completed item in the client's conversation.\<close>

definition console_with_item :: console where
  "console_with_item =
     connected_console\<lparr>client := (client connected_console)\<lparr>conversation := [completed_item]\<rparr>,
                        items := [completed_item]\<rparr>"

section \<open>Persistence of the memory map\<close>







text \<open>
  The relay server is configured and both servers are down; \<^verbatim>\<open>localStorage\<close> takes the
  write.
\<close>

definition servers_down :: tool_env where
  "servers_down =
     \<lparr>relay_server_url = ''http://localhost:8081'',
      relay_post = Inl (JsError ''TypeError'' ''Failed to fetch''),
      memory_post = Inl (JsError ''TypeError'' ''Failed to fetch''),
      storage_set = None,
      weather_get = Inl (JsError ''TypeError'' ''Failed to fetch''),
      time_get = Inl (JsError ''TypeError'' ''Failed to fetch'')\<rparr>"



section \<open>The event log collapses runs\<close>

lemma rate_limit_projection_ok:
  assumes "projection_ok e"
  shows "\<exists>c'. rate_limit_projection coerce e c = Inr c' \<and> realtimeEvents c' = realtimeEvents c"
  using assms
  by (auto simp: projection_ok_def rate_limit_projection_def split: js.splits sum.splits if_splits)

lemma on_realtime_events_append:
  "on_realtime_events coerce (xs @ ys) c =
     (case on_realtime_events coerce xs c of Inl x \<Rightarrow> Inl x | Inr c' \<Rightarrow> on_realtime_events coerce ys c')"
  by (induction xs arbitrary: c) (auto split: sum.splits)

text \<open>An event of the type of the last log entry is merged into it, with no side effect.\<close>

lemma merge_step:
  assumes "realtimeEvents c \<noteq> []"
    and "ev_type (event e) = ev_type (event (last (realtimeEvents c)))"
  shows "on_realtime_event coerce e c =
     Inr (c\<lparr>realtimeEvents := butlast (realtimeEvents c) @
            [(last (realtimeEvents c))\<lparr>count := Some (bump_count (count (last (realtimeEvents c))))\<rparr>]\<rparr>)"
  using assms by (simp add: on_realtime_event_def Let_def)

text \<open>A well-shaped event of another type than the last log entry starts a new entry.\<close>

lemma append_step:
  assumes "realtimeEvents c = [] \<or> ev_type (event (last (realtimeEvents c))) \<noteq> ev_type (event e)"
    and "well_shaped e"
  shows "\<exists>c'. on_realtime_event coerce e c = Inr c' \<and> realtimeEvents c' = realtimeEvents c @ [e]"
proof -
  let ?c1 = "if ev_type (event e) = Some ''input_audio_buffer.speech_started''
             then updateSession (SetModalities [''audio'', ''text'']) c else c"
  have log1: "realtimeEvents ?c1 = realtimeEvents c"
    by (simp add: updateSession_def call_def)
  from assms(2) have ok: "projection_ok e" and ty: "ev_type (event e) \<noteq> None"
    by (simp_all add: well_shaped_def)
  from rate_limit_projection_ok [OF ok, of coerce ?c1] obtain c2
    where c2: "rate_limit_projection coerce e ?c1 = Inr c2" "realtimeEvents c2 = realtimeEvents ?c1"
    by blast
  from assms(1) ty have differ:
    "(if realtimeEvents c = [] then None else ev_type (event (last (realtimeEvents c)))) \<noteq> ev_type (event e)"
    by auto
  show ?thesis
    using differ c2 log1 by (simp add: on_realtime_event_def Let_def)
qed

lemma merge_run:
  assumes "realtimeEvents c = butl @ [l]"
    and "\<forall>e \<in> set es. ev_type (event e) = ev_type (event l)"
    and "es \<noteq> []"
  shows "\<exists>c'. on_realtime_events coerce es c = Inr c' \<and>
           realtimeEvents c' = butl @ [l\<lparr>count := Some (count_or_0 (count l) + length es)\<rparr>]"
  using assms
proof (induction es arbitrary: c l)
  case Nil
  then show ?case by simp
next
  case (Cons e es)
  let ?l' = "l\<lparr>count := Some (bump_count (count l))\<rparr>"
  let ?c' = "c\<lparr>realtimeEvents := butl @ [?l']\<rparr>"
  have step: "on_realtime_event coerce e c = Inr ?c'"
    using Cons.prems(1,2) merge_step [of c e coerce] by simp
  show ?case
  proof (cases "es = []")
    case True
    then show ?thesis using step by (simp add: bump_count_def count_or_0_def)
  next
    case False
    have "\<exists>c'. on_realtime_events coerce es ?c' = Inr c' \<and>
           realtimeEvents c' = butl @ [?l'\<lparr>count := Some (count_or_0 (count ?l') + length es)\<rparr>]"
      using Cons.prems(2) False by (intro Cons.IH) simp_all
    then show ?thesis using step by (simp add: bump_count_def count_or_0_def)
  qed
qed

text \<open>
  From a log that is empty, or whose last entry has another type than the first event, a
  sequence of well-shaped events is handled without exception and appends its run-length view.
\<close>

lemma collapse_general:
  assumes "\<forall>e \<in> set evs. well_shaped e"
    and "realtimeEvents c = [] \<or> evs = [] \<or>
         ev_type (event (last (realtimeEvents c))) \<noteq> ev_type (event (hd evs))"
  shows "\<exists>c'. on_realtime_events coerce evs c = Inr c' \<and>
           realtimeEvents c' = realtimeEvents c @ collapse_runs evs"
  using assms
proof (induction evs arbitrary: c rule: collapse_runs.induct)
  case 1
  then show ?case by simp
next
  case (2 e es)
  let ?same = "\<lambda>x. ev_type (event x) = ev_type (event e)"
  let ?run = "takeWhile ?same es"
  let ?rest = "dropWhile ?same es"
  let ?entry = "if length ?run = 0 then e else e\<lparr>count := Some (count_or_0 (count e) + length ?run)\<rparr>"
  from "2.prems" have ws: "well_shaped e" and ws_rest: "\<forall>x \<in> set ?rest. well_shaped x"
    by (auto dest: set_dropWhileD)
  from "2.prems"(2) have "realtimeEvents c = [] \<or> ev_type (event (last (realtimeEvents c))) \<noteq> ev_type (event e)"
    by simp
  from append_step [OF this ws, of coerce] obtain c1
    where c1: "on_realtime_event coerce e c = Inr c1" "realtimeEvents c1 = realtimeEvents c @ [e]"
    by blast
  have "\<exists>c2. on_realtime_events coerce ?run c1 = Inr c2 \<and> realtimeEvents c2 = realtimeEvents c @ [?entry]"
  proof (cases "?run = []")
    case True
    then show ?thesis using c1 by simp
  next
    case False
    have "\<forall>x \<in> set ?run. ev_type (event x) = ev_type (event e)"
      by (auto dest: set_takeWhileD)
    from merge_run [OF c1(2) this False, of coerce] show ?thesis using False by simp
  qed
  then obtain c2 where c2: "on_realtime_events coerce ?run c1 = Inr c2"
    "realtimeEvents c2 = realtimeEvents c @ [?entry]" by blast
  have ty: "ev_type (event ?entry) = ev_type (event e)" by simp
  have "realtimeEvents c2 = [] \<or> ?rest = [] \<or>
         ev_type (event (last (realtimeEvents c2))) \<noteq> ev_type (event (hd ?rest))"
  proof (cases "?rest = []")
    case True then show ?thesis by simp
  next
    case False
    then have "\<not> ?same (hd ?rest)" by (rule hd_dropWhile)
    then show ?thesis using c2(2) ty by auto
  qed
  from "2.IH" [OF refl refl ws_rest this] obtain c3
    where c3: "on_realtime_events coerce ?rest c2 = Inr c3"
      "realtimeEvents c3 = realtimeEvents c2 @ collapse_runs ?rest" by blast
  have split: "e # es = [e] @ ?run @ ?rest" by simp
  have "on_realtime_events coerce (e # es) c = Inr c3"
    unfolding split on_realtime_events_append using c1(1) c2(1) c3(1) by simp
  moreover have "realtimeEvents c3 = realtimeEvents c @ collapse_runs (e # es)"
    using c3(2) c2(2) by (simp add: Let_def)
  ultimately show ?case by blast
qed

lemma collapse_runs_Cons:
  "collapse_runs (e # es) =
     (if takeWhile (\<lambda>x. ev_type (event x) = ev_type (event e)) es = [] then e
      else e\<lparr>count := Some (count_or_0 (count e)
                + length (takeWhile (\<lambda>x. ev_type (event x) = ev_type (event e)) es))\<rparr>)
     # collapse_runs (dropWhile (\<lambda>x. ev_type (event x) = ev_type (event e)) es)"
  by (simp add: Let_def)

lemma last_dropWhile_nonempty: "dropWhile P xs \<noteq> [] \<Longrightarrow> last (dropWhile P xs) = last xs"
  by (induction xs) (auto split: if_splits)

lemma collapse_runs_append:
  assumes "xs = [] \<or> ys = [] \<or> ev_type (event (last xs)) \<noteq> ev_type (event (hd ys))"
  shows "collapse_runs (xs @ ys) = collapse_runs xs @ collapse_runs ys"
  using assms
proof (induction xs rule: collapse_runs.induct)
  case 1
  then show ?case by simp
next
  case (2 e es)
  let ?same = "\<lambda>x. ev_type (event x) = ev_type (event e)"
  show ?case
  proof (cases "ys = []")
    case True
    then show ?thesis by simp
  next
    case ys: False
    with "2.prems" have differ: "ev_type (event (last (e # es))) \<noteq> ev_type (event (hd ys))"
      by simp
    show ?thesis
    proof (cases "dropWhile ?same es = []")
      case True
      then have all: "\<forall>x \<in> set es. ?same x" by (simp add: dropWhile_eq_Nil_conv)
      then have "?same (last (e # es))" by (cases "es = []") auto
      with differ have nhd: "\<not> ?same (hd ys)" by simp
      from ys obtain y ys' where y: "ys = y # ys'" by (cases ys) auto
      with nhd have tw_ys: "takeWhile ?same ys = []" and dw_ys: "dropWhile ?same ys = ys"
        by simp_all
      have tw: "takeWhile ?same (es @ ys) = es"
        using all tw_ys takeWhile_append2 [of es ?same ys] by simp
      have dw: "dropWhile ?same (es @ ys) = ys"
        using all dw_ys dropWhile_append2 [of es ?same ys] by simp
      have tw': "takeWhile ?same es = es" using all by (simp add: takeWhile_eq_all_conv)
      have "collapse_runs ((e # es) @ ys) =
              (if es = [] then e else e\<lparr>count := Some (count_or_0 (count e) + length es)\<rparr>)
              # collapse_runs ys"
        unfolding append_Cons collapse_runs_Cons tw dw ..
      moreover have "collapse_runs (e # es) =
              [if es = [] then e else e\<lparr>count := Some (count_or_0 (count e) + length es)\<rparr>]"
        unfolding collapse_runs_Cons tw' True collapse_runs.simps(1) ..
      ultimately show ?thesis by simp
    next
      case False
      then obtain x where x: "x \<in> set es" "\<not> ?same x"
        by (auto simp: dropWhile_eq_Nil_conv)
      have tw: "takeWhile ?same (es @ ys) = takeWhile ?same es"
        using x takeWhile_append1 [of x es ?same ys] by simp
      have dw: "dropWhile ?same (es @ ys) = dropWhile ?same es @ ys"
        using x dropWhile_append1 [of x es ?same ys] by simp
      have "es \<noteq> []" using x(1) by auto
      then have "last (dropWhile ?same es) = last (e # es)"
        using last_dropWhile_nonempty [OF False] by simp
      with differ have "dropWhile ?same es = [] \<or> ys = [] \<or>
          ev_type (event (last (dropWhile ?same es))) \<noteq> ev_type (event (hd ys))" by simp
      from "2.IH" [OF refl refl this]
      have IH: "collapse_runs (dropWhile ?same es @ ys) =
                collapse_runs (dropWhile ?same es) @ collapse_runs ys" .
      show ?thesis
        unfolding append_Cons collapse_runs_Cons tw dw IH by simp
    qed
  qed
qed

lemma collapse_uniform_run:
  assumes "\<forall>e \<in> set es. ev_type (event e) = ev_type (event e0)" and "es \<noteq> []"
  shows "collapse_runs (e0 # es) = [e0\<lparr>count := Some (count_or_0 (count e0) + length es)\<rparr>]"
proof -
  from assms(1) have tw: "takeWhile (\<lambda>x. ev_type (event x) = ev_type (event e0)) es = es"
    by (simp add: takeWhile_eq_all_conv)
  from assms(1) have dw: "dropWhile (\<lambda>x. ev_type (event x) = ev_type (event e0)) es = []"
    by (simp add: dropWhile_eq_Nil_conv)
  show ?thesis
    unfolding collapse_runs_Cons tw dw collapse_runs.simps(1) using assms(2) by simp
qed

text \<open>
  C1, as the handler has it. Let a sequence of well-shaped events arrive at an empty log, and
  let \<open>run\<close> be a maximal run in it: \<open>n \<ge> 2\<close> consecutive events of type \<open>ty\<close>, with
  the event before it (if any) and the event after it (if any) of another type. The handler
  throws on none of the events, and the log holds exactly one entry for the run: the first event
  of the run, standing after the entries of the events before the run and before the entries of
  the events after it. Its count is \<open>n - 1\<close>, the number of events merged into the first one
  (added to the count the first event came with, if it had one), not the run length \<open>n\<close>.
\<close>

theorem C1_run_is_one_entry_counting_merges:
  assumes "realtimeEvents c = []"
    and "\<forall>e \<in> set (before @ run @ after). well_shaped e"
    and "2 \<le> length run"
    and "\<forall>e \<in> set run. ev_type (event e) = Some ty"
    and "before = [] \<or> ev_type (event (last before)) \<noteq> Some ty"
    and "after = [] \<or> ev_type (event (hd after)) \<noteq> Some ty"
  shows "\<exists>c'. on_realtime_events coerce (before @ run @ after) c = Inr c' \<and>
           realtimeEvents c' =
             collapse_runs before
             @ [(hd run)\<lparr>count := Some (count_or_0 (count (hd run)) + (length run - 1))\<rparr>]
             @ collapse_runs after"
proof -
  from assms(3) obtain r0 rs where run: "run = r0 # rs"
    by (cases run) auto
  from assms(3) run have rs: "rs \<noteq> []" by auto
  from assms(4) run have ty0: "ev_type (event r0) = Some ty"
    and same: "\<forall>e \<in> set rs. ev_type (event e) = ev_type (event r0)" by simp_all
  from assms(4) run rs have ty_last: "ev_type (event (last run)) = Some ty" by simp
  have one: "collapse_runs run = [r0\<lparr>count := Some (count_or_0 (count r0) + length rs)\<rparr>]"
    unfolding run using same rs by (rule collapse_uniform_run)
  have "collapse_runs (run @ after) = collapse_runs run @ collapse_runs after"
    using assms(6) ty_last by (intro collapse_runs_append) auto
  moreover have "collapse_runs (before @ (run @ after)) = collapse_runs before @ collapse_runs (run @ after)"
    using assms(5) ty0 run by (intro collapse_runs_append) auto
  ultimately have view: "collapse_runs (before @ run @ after) =
      collapse_runs before @ [r0\<lparr>count := Some (count_or_0 (count r0) + length rs)\<rparr>] @ collapse_runs after"
    using one by simp
  from collapse_general [OF assms(2), of c coerce] assms(1) obtain c'
    where "on_realtime_events coerce (before @ run @ after) c = Inr c'"
      and "realtimeEvents c' = collapse_runs (before @ run @ after)" by auto
  then show ?thesis using view run by auto
qed

theorem C1_run_is_one_entry_counting_merges_witness:
  "\<exists>c'. on_realtime_events nan_coerce
           ([server_event ''session.created'' JUndefined]
            @ [server_event ''response.audio.delta'' JUndefined,
               server_event ''response.audio.delta'' JUndefined,
               server_event ''response.audio.delta'' JUndefined]
            @ [server_event ''response.done'' JUndefined]) initial_console = Inr c' \<and>
         realtimeEvents c' =
           [server_event ''session.created'' JUndefined,
            (server_event ''response.audio.delta'' JUndefined)\<lparr>count := Some 2\<rparr>,
            server_event ''response.done'' JUndefined]"
proof -
  let ?before = "[server_event ''session.created'' JUndefined]"
  let ?run = "[server_event ''response.audio.delta'' JUndefined,
               server_event ''response.audio.delta'' JUndefined,
               server_event ''response.audio.delta'' JUndefined]"
  let ?after = "[server_event ''response.done'' JUndefined]"
  have h1: "realtimeEvents initial_console = []" by (simp add: initial_console_def)
  have h2: "\<forall>e \<in> set (?before @ ?run @ ?after). well_shaped e"
    by (simp add: server_event_def well_shaped_def projection_ok_def)
  have h3: "2 \<le> length ?run" by simp
  have h4: "\<forall>e \<in> set ?run. ev_type (event e) = Some ''response.audio.delta''"
    by (simp add: server_event_def)
  have h5: "?before = [] \<or> ev_type (event (last ?before)) \<noteq> Some ''response.audio.delta''"
    by (simp add: server_event_def)
  have h6: "?after = [] \<or> ev_type (event (hd ?after)) \<noteq> Some ''response.audio.delta''"
    by (simp add: server_event_def)
  have v1: "collapse_runs ?before = ?before" and v2: "collapse_runs ?after = ?after"
    by simp_all
  have cnt: "count_or_0 (count (hd ?run)) + (length ?run - 1) = 2"
    by (simp add: server_event_def count_or_0_def)
  from C1_run_is_one_entry_counting_merges [OF h1 h2 h3 h4 h5 h6, of nan_coerce]
  show ?thesis unfolding v1 v2 cnt by simp
qed

text \<open>
  The claim as written fails on a run of two: the one entry has the count 1, not the run
  length 2.
\<close>

theorem C1_count_is_not_the_run_length:
  "on_realtime_events nan_coerce
     [server_event ''response.audio.delta'' JUndefined,
      server_event ''response.audio.delta'' JUndefined] initial_console
   = Inr (initial_console\<lparr>realtimeEvents :=
            [(server_event ''response.audio.delta'' JUndefined)\<lparr>count := Some 1\<rparr>]\<rparr>)
   \<and> Some (1::nat) \<noteq> Some (length [server_event ''response.audio.delta'' JUndefined,
                                  server_event ''response.audio.delta'' JUndefined])"
  by (simp add: on_realtime_event_def rate_limit_projection_def initial_console_def
      server_event_def bump_count_def Let_def)

section \<open>Side effects of the aggregator\<close>

text \<open>
  C4 says that the two side effects fire for every event of the triggering type, merged or
  not. In the handler both stand in the branch that appends, so an event merged into the
  preceding entry triggers neither. Of two speech-started events in a row only the first
  reconfigures the modalities (one \<^verbatim>\<open>updateSession\<close> call); of two rate-limit updates in a
  row, with reset intervals of 30 and of 125 seconds, only the first is published: the map
  keeps \<^verbatim>\<open>reset_minutes: 1\<close>.
\<close>

theorem C4_merged_events_skip_side_effects:
  "on_realtime_events nan_coerce
     [server_event ''input_audio_buffer.speech_started'' JUndefined,
      server_event ''input_audio_buffer.speech_started'' JUndefined] initial_console
   = Inr (initial_console
       \<lparr>realtimeEvents := [(server_event ''input_audio_buffer.speech_started'' JUndefined)\<lparr>count := Some 1\<rparr>],
        client := (client initial_console)\<lparr>session_modalities := [''audio'', ''text'']\<rparr>,
        calls := [UpdateSession (SetModalities [''audio'', ''text''])]\<rparr>)
   \<and> on_realtime_events nan_coerce
     [server_event ''rate_limits.updated'' (JArray [requests_limit 30]),
      server_event ''rate_limits.updated'' (JArray [requests_limit 125])] initial_console
   = Inr (initial_console
       \<lparr>realtimeEvents :=
          [(server_event ''rate_limits.updated'' (JArray [requests_limit 30]))\<lparr>count := Some 1\<rparr>],
        memoryKv := [(''requests_rate_limit'',
           JObject [(''name'', JString ''requests''), (''reset_seconds'', JUndefined),
                    (''reset_minutes'', JNumber (Num 1))])]\<rparr>)"
  by (simp add: on_realtime_event_def rate_limit_projection_def initial_console_def
      server_event_def requests_limit_def formattedLimit_def bump_count_def updateSession_def
      call_def Let_def ceiling_eq_iff)

text \<open>
  The projection on the first rate-limit update of a run: 125 seconds become 3 minutes, and
  the property \<^verbatim>\<open>reset_seconds\<close> is kept with the value \<^verbatim>\<open>undefined\<close>.
\<close>

lemma rate_limit_projection_example:
  "on_realtime_event nan_coerce
     (server_event ''rate_limits.updated'' (JArray [requests_limit 125])) initial_console
   = Inr (initial_console
       \<lparr>realtimeEvents := [server_event ''rate_limits.updated'' (JArray [requests_limit 125])],
        memoryKv := [(''requests_rate_limit'',
           JObject [(''name'', JString ''requests''), (''reset_seconds'', JUndefined),
                    (''reset_minutes'', JNumber (Num 3))])]\<rparr>)"
  by (simp add: on_realtime_event_def rate_limit_projection_def initial_console_def
      server_event_def requests_limit_def formattedLimit_def Let_def ceiling_eq_iff)

lemma formattedLimit_fields:
  assumes "map_of kvs ''reset_seconds'' = Some (JNumber (Num r))"
  shows "map_of (formattedLimit coerce (JObject kvs)) ''reset_minutes''
           = Some (JNumber (Num (of_int \<lceil>r / 60\<rceil>)))"
    and "map_of (formattedLimit coerce (JObject kvs)) ''reset_seconds'' = Some JUndefined"
  using assms by (simp_all add: formattedLimit_def update_conv')

text \<open>
  C5 says that an event without the expected shape skips the side effect and does not fail
  the pipeline. The handler guards against a missing \<^verbatim>\<open>rate_limits\<close> and against an array
  without a \<^verbatim>\<open>requests\<close> entry only: on a \<^verbatim>\<open>rate_limits\<close> that is an object and not an
  array, the call of \<^verbatim>\<open>.find\<close> throws, and on an array with a \<^verbatim>\<open>null\<close> element before
  the \<^verbatim>\<open>requests\<close> entry the read of \<^verbatim>\<open>name\<close> throws; the state updater ends with a
  \<^verbatim>\<open>TypeError\<close> and the event is not logged.
\<close>

theorem C5_unexpected_shape_throws:
  "on_realtime_event nan_coerce
     (server_event ''rate_limits.updated''
        (JObject [(''requests'', JObject [(''reset_seconds'', JNumber (Num 125))])]))
     initial_console
   = Inl (type_error ''find'')
   \<and> on_realtime_event nan_coerce
     (server_event ''rate_limits.updated'' (JArray [JNull, requests_limit 125])) initial_console
   = Inl (type_error ''name'')"
  by (simp add: on_realtime_event_def rate_limit_projection_def initial_console_def
      server_event_def requests_limit_def Let_def)

section \<open>Text input\<close>

text \<open>
  C10. \<^verbatim>\<open>sendUserInput\<close>: when the input trims to the empty string the page is unchanged
  (nothing is sent, the session configuration stays). Otherwise, when the client is connected,
  the calls made are \<^verbatim>\<open>updateSession({modalities: ["text"]})\<close> and then
  \<^verbatim>\<open>sendUserMessageContent\<close> with the trimmed text, the session's modalities are
  \<^verbatim>\<open>["text"]\<close> and the input is cleared; when it is not connected, the only call is the
  error log, and the client and the input are as before.
\<close>

theorem C10_sendUserInput:
  "(trim (userInput c) = [] \<longrightarrow> sendUserInput c = c)
   \<and> (trim (userInput c) \<noteq> [] \<and> connected (client c) \<longrightarrow>
        calls (sendUserInput c) =
          calls c @ [UpdateSession (SetModalities [''text'']),
                     SendUserMessageContent (trim (userInput c))]
        \<and> session_modalities (client (sendUserInput c)) = [''text'']
        \<and> userInput (sendUserInput c) = [])
   \<and> (trim (userInput c) \<noteq> [] \<and> \<not> connected (client c) \<longrightarrow>
        calls (sendUserInput c) = calls c @ [ConsoleError ''Client is not connected'']
        \<and> client (sendUserInput c) = client c
        \<and> userInput (sendUserInput c) = userInput c)"
  by (simp add: sendUserInput_def updateSession_def call_def Let_def)

theorem C10_sendUserInput_witness:
  "sendUserInput (connected_console\<lparr>userInput := ''   ''\<rparr>) = connected_console\<lparr>userInput := ''   ''\<rparr>
   \<and> calls (sendUserInput (connected_console\<lparr>userInput := '' Hi there  ''\<rparr>)) =
        [UpdateSession (SetModalities [''text'']), SendUserMessageContent ''Hi there'']
   \<and> userInput (sendUserInput (connected_console\<lparr>userInput := '' Hi there  ''\<rparr>)) = []
   \<and> calls (sendUserInput (initial_console\<lparr>userInput := '' Hi there  ''\<rparr>)) =
        [ConsoleError ''Client is not connected'']"
proof -
  have t1: "trim ''   '' = []" and t2: "trim '' Hi there  '' = ''Hi there''"
    by (simp_all add: trim_def js_whitespace_def)
  have c1: "connected (client connected_console)" and c2: "\<not> connected (client initial_console)"
    and k1: "calls connected_console = []" and k2: "calls initial_console = []"
    by (simp_all add: connected_console_def initial_console_def)
  show ?thesis
    using C10_sendUserInput [of "connected_console\<lparr>userInput := ''   ''\<rparr>"]
      C10_sendUserInput [of "connected_console\<lparr>userInput := '' Hi there  ''\<rparr>"]
      C10_sendUserInput [of "initial_console\<lparr>userInput := '' Hi there  ''\<rparr>"]
      t1 t2 c1 c2 k1 k2
    by simp
qed

section \<open>Turn detection and push-to-talk\<close>

text \<open>
  C9. Switching to manual (\<^verbatim>\<open>none\<close>) while the recorder delivers frames calls
  \<^verbatim>\<open>pause\<close> and then \<^verbatim>\<open>updateSession\<close>, in this order and nothing else: delivery stops,
  a frame the recorder has is not passed on, and the device stays as it was. Switching to
  \<^verbatim>\<open>server_vad\<close> while the client is connected calls \<^verbatim>\<open>updateSession\<close> and then
  \<^verbatim>\<open>record\<close>, with no \<^verbatim>\<open>begin\<close>: delivery resumes and the device stays as it was.
\<close>

theorem C9_turn_detection_switch:
  "(delivering (wavRecorder c) \<longrightarrow>
      calls (changeTurnEndType ''none'' c) =
        calls c @ [RecorderPause, UpdateSession (SetTurnDetection None)]
      \<and> \<not> delivering (wavRecorder (changeTurnEndType ''none'' c))
      \<and> device_acquired (wavRecorder (changeTurnEndType ''none'' c)) = device_acquired (wavRecorder c)
      \<and> deliver_frame frame (changeTurnEndType ''none'' c) = changeTurnEndType ''none'' c)
   \<and> (connected (client c') \<longrightarrow>
      calls (changeTurnEndType ''server_vad'' c') =
        calls c' @ [UpdateSession (SetTurnDetection (Some ''server_vad'')), RecorderRecord]
      \<and> delivering (wavRecorder (changeTurnEndType ''server_vad'' c'))
      \<and> device_acquired (wavRecorder (changeTurnEndType ''server_vad'' c')) = device_acquired (wavRecorder c')
      \<and> calls (deliver_frame frame (changeTurnEndType ''server_vad'' c')) =
          calls (changeTurnEndType ''server_vad'' c') @ [AppendInputAudio frame])"
  by (simp add: changeTurnEndType_def updateSession_def call_def recorder_pause_def
      recorder_record_def deliver_frame_def Let_def)

theorem C9_turn_detection_switch_witness:
  "calls (changeTurnEndType ''none'' recording_console)
     = [RecorderPause, UpdateSession (SetTurnDetection None)]
   \<and> wavRecorder (changeTurnEndType ''none'' recording_console)
     = \<lparr>device_acquired = True, delivering = False\<rparr>
   \<and> calls (changeTurnEndType ''server_vad'' (changeTurnEndType ''none'' recording_console))
     = [RecorderPause, UpdateSession (SetTurnDetection None),
        UpdateSession (SetTurnDetection (Some ''server_vad'')), RecorderRecord]
   \<and> wavRecorder (changeTurnEndType ''server_vad'' (changeTurnEndType ''none'' recording_console))
     = \<lparr>device_acquired = True, delivering = True\<rparr>"
proof -
  let ?c = recording_console
  let ?c1 = "changeTurnEndType ''none'' ?c"
  let ?c2 = "changeTurnEndType ''server_vad'' ?c1"
  have h1: "delivering (wavRecorder ?c)" and k: "calls ?c = []"
    and d: "device_acquired (wavRecorder ?c)"
    by (simp_all add: recording_console_def connected_console_def initial_console_def)
  have h2: "connected (client ?c1)"
    by (simp add: changeTurnEndType_def updateSession_def call_def Let_def
        recording_console_def connected_console_def initial_console_def)
  from C9_turn_detection_switch [of ?c "[]" ?c1] h1 h2 k d
  have "calls ?c1 = [RecorderPause, UpdateSession (SetTurnDetection None)]"
    and "\<not> delivering (wavRecorder ?c1)"
    and "device_acquired (wavRecorder ?c1)"
    and "calls ?c2 = [RecorderPause, UpdateSession (SetTurnDetection None),
                      UpdateSession (SetTurnDetection (Some ''server_vad'')), RecorderRecord]"
    and "delivering (wavRecorder ?c2)"
    and "device_acquired (wavRecorder ?c2)"
    by simp_all
  then show ?thesis
    by (cases "wavRecorder ?c1"; cases "wavRecorder ?c2") simp
qed

text \<open>
  C6. \<^verbatim>\<open>startRecording\<close> from a recorder that is not delivering (push-to-talk): the calls
  are \<^verbatim>\<open>interrupt\<close>, then \<^verbatim>\<open>cancelResponse(trackId, offset)\<close> when the interruption
  reported a track, then \<^verbatim>\<open>record\<close>. While the interruption is awaited, and while the
  truncation point is reported, a frame of the recorder is not passed on; after \<^verbatim>\<open>record\<close>
  it is.
\<close>

theorem C6_interrupt_then_capture:
  "\<not> delivering (wavRecorder c) \<longrightarrow>
     calls (startRecording r c) =
       calls c @ [PlayerInterrupt]
       @ (case r of Some (Some trackId, offset) \<Rightarrow>
                      if trackId \<noteq> [] then [CancelResponse trackId offset] else []
                  | _ \<Rightarrow> [])
       @ [RecorderRecord]
     \<and> deliver_frame frame (startRecording_interrupt c) = startRecording_interrupt c
     \<and> deliver_frame frame (startRecording_cancel r (startRecording_interrupt c))
         = startRecording_cancel r (startRecording_interrupt c)
     \<and> calls (deliver_frame frame (startRecording r c))
         = calls (startRecording r c) @ [AppendInputAudio frame]"
  by (simp add: startRecording_def startRecording_interrupt_def startRecording_cancel_def
      startRecording_record_def recorder_record_def deliver_frame_def call_def
      split: option.splits prod.splits)

theorem C6_interrupt_then_capture_witness:
  "calls (startRecording (Some (Some ''item_1'', 4800)) connected_console)
     = [PlayerInterrupt, CancelResponse ''item_1'' 4800, RecorderRecord]
   \<and> calls (deliver_frame [7, 8]
              (startRecording_cancel (Some (Some ''item_1'', 4800))
                 (startRecording_interrupt connected_console)))
     = [PlayerInterrupt, CancelResponse ''item_1'' 4800]
   \<and> calls (deliver_frame [7, 8] (startRecording (Some (Some ''item_1'', 4800)) connected_console))
     = [PlayerInterrupt, CancelResponse ''item_1'' 4800, RecorderRecord, AppendInputAudio [7, 8]]"
proof -
  have h: "\<not> delivering (wavRecorder connected_console)" and k: "calls connected_console = []"
    by (simp_all add: connected_console_def initial_console_def)
  have mid: "calls (startRecording_cancel (Some (Some ''item_1'', 4800))
                 (startRecording_interrupt connected_console))
             = [PlayerInterrupt, CancelResponse ''item_1'' 4800]"
    using k by (simp add: startRecording_cancel_def startRecording_interrupt_def call_def)
  from C6_interrupt_then_capture [of connected_console "Some (Some ''item_1'', 4800)" "[7, 8]"] h k mid
  show ?thesis by simp
qed

section \<open>Decoding the audio of completed items\<close>

text \<open>
  C8, as the handler has it: every conversation-update notification for an item whose status
  is completed and whose formatted audio is not empty decodes the audio once more and sets the
  item's file to the result of this new decoding, whether or not the item already has one; a
  notification for any other item decodes nothing and leaves the item's file as it is. The
  handler does not read \<^verbatim>\<open>item.formatted.file\<close>. In full: the calls are the enqueuing of
  the delta's audio, if any, and then the decoding, if any; the item of the conversation with
  this id is the notified item with the new file, and the page shows the conversation.
\<close>

theorem C8_every_notification_decodes:
  "decode_count (on_conversation_updated it delta_audio c) =
     decode_count c + (if status it = ''completed'' \<and> formatted_audio it \<noteq> [] then 1 else 0)
   \<and> calls (on_conversation_updated it delta_audio c) =
       calls c
       @ (case delta_audio of Some audio \<Rightarrow> [PlayerAdd16BitPCM audio (item_id it)] | None \<Rightarrow> [])
       @ (if status it = ''completed'' \<and> formatted_audio it \<noteq> []
          then [WavDecode (formatted_audio it)] else [])
   \<and> decodings (on_conversation_updated it delta_audio c) =
       decodings c + (if status it = ''completed'' \<and> formatted_audio it \<noteq> [] then 1 else 0)
   \<and> items (on_conversation_updated it delta_audio c) =
       map (\<lambda>i. if item_id i = item_id it
                then (if status it = ''completed'' \<and> formatted_audio it \<noteq> []
                      then it\<lparr>formatted_file := Some (decodings c)\<rparr> else it)
                else i)
           (conversation (client c))
   \<and> conversation (client (on_conversation_updated it delta_audio c)) =
       items (on_conversation_updated it delta_audio c)"
  by (cases "status it = ''completed'' \<and> formatted_audio it \<noteq> []"; cases delta_audio)
     (auto simp add: on_conversation_updated_def decode_count_def call_def Let_def)

text \<open>
  The claim as written fails on two notifications for one completed item: the second, for the
  item that holds the file of the first decoding, decodes again.
\<close>

theorem C8_decoded_item_is_decoded_again:
  "items (on_conversation_updated completed_item None console_with_item)
     = [completed_item\<lparr>formatted_file := Some 0\<rparr>]
   \<and> decode_count (on_conversation_updated completed_item None console_with_item) = 1
   \<and> items (on_conversation_updated (completed_item\<lparr>formatted_file := Some 0\<rparr>) None
              (on_conversation_updated completed_item None console_with_item))
     = [completed_item\<lparr>formatted_file := Some 1\<rparr>]
   \<and> decode_count
       (on_conversation_updated (completed_item\<lparr>formatted_file := Some 0\<rparr>) None
          (on_conversation_updated completed_item None console_with_item)) = 2"
  by (simp add: on_conversation_updated_def decode_count_def call_def Let_def
      completed_item_def console_with_item_def connected_console_def initial_console_def)

section \<open>Reconnecting after a transport drop\<close>

lemma isConnected_reconnect_attempt: "isConnected (reconnect_attempt env c) = True"
  by (simp add: reconnect_attempt_def connectConversation_def call_def Let_def
      split: option.splits)

lemma advance_time_not_due:
  assumes "\<forall>t \<in> set (timers c). now c + d < t"
  shows "advance_time env d c = c\<lparr>now := now c + d\<rparr>"
proof -
  from assms have "filter (\<lambda>t. t \<le> now c + d) (timers c) = []"
    by (auto simp: filter_empty_conv)
  moreover from assms have "filter (\<lambda>t. \<not> t \<le> now c + d) (timers c) = timers c"
    by (auto simp: filter_id_conv)
  ultimately show ?thesis by (simp add: advance_time_def Let_def)
qed

lemma advance_time_one_due:
  assumes "timers c = [t]" and "t \<le> now c + d"
  shows "advance_time env d c = reconnect_attempt env (c\<lparr>now := now c + d, timers := []\<rparr>)"
  using assms by (simp add: advance_time_def Let_def)

lemma disconnectConversation_clock:
  "timers (disconnectConversation c) = timers c" "now (disconnectConversation c) = now c"
  by (simp_all add: disconnectConversation_def call_def Let_def)

text \<open>
  C2, as the page has it. The handler of \<^verbatim>\<open>disconnected\<close> schedules exactly one callback,
  3000 milliseconds ahead, and the callback runs \<^verbatim>\<open>connectConversation\<close>.
  \<^verbatim>\<open>disconnectConversation\<close> leaves the pending callback in place: after a drop, a manual
  disconnect \<open>d1 < 3000\<close> milliseconds later, and the rest of the delay, the reconnect attempt
  runs on the disconnected page and sets it connected again.
\<close>

theorem C2_reconnect_survives_manual_disconnect:
  assumes "timers c = []" and "d1 < 3000" and "3000 \<le> d1 + d2"
  shows "timers (on_disconnected c) = [now c + 3000]
    \<and> calls (on_disconnected c) =
        calls c @ [ConsoleLog ''Disconnected, attempting to reconnect in 3 seconds...'', SetTimeout 3000]
    \<and> timers (disconnectConversation (advance_time env d1 (on_disconnected c))) = [now c + 3000]
    \<and> advance_time env d2 (disconnectConversation (advance_time env d1 (on_disconnected c)))
        = reconnect_attempt env
            ((disconnectConversation (advance_time env d1 (on_disconnected c)))
               \<lparr>now := now c + d1 + d2, timers := []\<rparr>)
    \<and> isConnected (advance_time env d2 (disconnectConversation (advance_time env d1 (on_disconnected c))))"
proof -
  let ?c1 = "on_disconnected c"
  have t1: "timers ?c1 = [now c + 3000]" and n1: "now ?c1 = now c"
    and k1: "calls ?c1 = calls c @ [ConsoleLog ''Disconnected, attempting to reconnect in 3 seconds...'', SetTimeout 3000]"
    using assms(1) by (simp_all add: on_disconnected_def call_def Let_def)
  have "\<forall>t \<in> set (timers ?c1). now ?c1 + d1 < t" using t1 n1 assms(2) by simp
  then have a1: "advance_time env d1 ?c1 = ?c1\<lparr>now := now ?c1 + d1\<rparr>"
    by (rule advance_time_not_due)
  let ?c2 = "disconnectConversation (advance_time env d1 ?c1)"
  have t2: "timers ?c2 = [now c + 3000]" and n2: "now ?c2 = now c + d1"
    using a1 t1 n1 by (simp_all add: disconnectConversation_clock)
  have "now c + 3000 \<le> now ?c2 + d2" using n2 assms(3) by simp
  with t2 have a2: "advance_time env d2 ?c2 = reconnect_attempt env (?c2\<lparr>now := now ?c2 + d2, timers := []\<rparr>)"
    by (rule advance_time_one_due)
  show ?thesis
    using t1 k1 t2 a2 n2 by (simp add: isConnected_reconnect_attempt)
qed

theorem C2_reconnect_survives_manual_disconnect_witness:
  "timers (disconnectConversation (advance_time all_acquired 1000 (on_disconnected connected_console)))
     = [3000]
   \<and> isConnected (advance_time all_acquired 2000
        (disconnectConversation (advance_time all_acquired 1000 (on_disconnected connected_console))))"
proof -
  have h: "timers connected_console = []" and n: "now connected_console = 0"
    by (simp_all add: connected_console_def initial_console_def)
  from C2_reconnect_survives_manual_disconnect
         [OF h, of 1000 2000 all_acquired] n
  show ?thesis by (simp add: isConnected_reconnect_attempt)
qed

text \<open>
  The claim as written fails: the user disconnects one second after the drop, and two seconds
  later the scheduled attempt runs all the same. The calls after the manual disconnect are
  those of \<^verbatim>\<open>connectConversation\<close>, and the page is connected.
\<close>

theorem C2_manual_disconnect_does_not_cancel:
  "calls (advance_time all_acquired 2000
            (disconnectConversation (advance_time all_acquired 1000 (on_disconnected connected_console))))
     = [ConsoleLog ''Disconnected, attempting to reconnect in 3 seconds...'', SetTimeout 3000,
        ClientDisconnect, RecorderEnd, PlayerInterrupt,
        RecorderBegin, PlayerConnect, ClientConnect, SendUserMessageContent ''Hello!'']
   \<and> isConnected (advance_time all_acquired 2000
        (disconnectConversation (advance_time all_acquired 1000 (on_disconnected connected_console))))
   \<and> connected (client (advance_time all_acquired 2000
        (disconnectConversation (advance_time all_acquired 1000 (on_disconnected connected_console)))))"
  by (simp add: advance_time_def disconnectConversation_def on_disconnected_def
      reconnect_attempt_def connectConversation_def all_acquired_def connected_console_def
      initial_console_def call_def recorder_end_def recorder_begin_def Let_def)

section \<open>The memory-write tool\<close>



lemma try_post_memoryKv:
  "memoryKv (snd (try_post trying url outcome failed hint newMemory c)) = memoryKv c"
  by (simp add: try_post_def call_def Let_def split: sum.splits)



lemma try_post_session:
  "client (snd (try_post trying url outcome failed hint newMemory c)) = client c"
  "isConnected (snd (try_post trying url outcome failed hint newMemory c)) = isConnected c"
  by (simp_all add: try_post_def call_def Let_def split: sum.splits)






lemma relay_block_state:
  "memoryKv (snd (relay_block env m c)) = memoryKv c"
  "client (snd (relay_block env m c)) = client c"
  "isConnected (snd (relay_block env m c)) = isConnected c"
  by (simp_all add: relay_block_def try_post_memoryKv try_post_session)






lemma memory_block_state:
  "memoryKv (snd (memory_block env m r)) = memoryKv (snd r)"
  "client (snd (memory_block env m r)) = client (snd r)"
  "isConnected (snd (memory_block env m r)) = isConnected (snd r)"
  by (simp_all add: memory_block_def try_post_memoryKv try_post_session)





text \<open>
  The map keeps the order of JavaScript: a new index key goes before the names, a new name
  goes last.
\<close>

lemma js_assign_order_example:
  "js_assign [(''name'', JString ''Ada'')] ''1'' (JString ''one'')
     = [(''1'', JString ''one''), (''name'', JString ''Ada'')]"
  "js_assign [(''1'', JString ''one'')] ''name'' (JString ''Ada'')
     = [(''1'', JString ''one''), (''name'', JString ''Ada'')]"
  by (simp_all add: js_assign_def js_define_def array_index_def js_digit_def digits_value_def
      before_index_def)


lemma set_memory_session:
  "client (snd (set_memory env key v c)) = client c"
  "isConnected (snd (set_memory env key v c)) = isConnected c"
  by (simp_all add: set_memory_def Let_def call_def memory_block_state relay_block_state
      split: option.splits)

lemma set_memory_result:
  "fst (set_memory env key v c) =
     (if storage_set env = None then Inr (JObject [(''ok'', JBool True)])
      else Inr (JObject [(''error'', JString ''Failed to save memory'')]))"
  by (simp add: set_memory_def Let_def split: option.splits)









section \<open>Tool dispatch\<close>

lemma get_weather_session:
  "client (snd (get_weather env latitude longitude loc c)) = client c"
  "isConnected (snd (get_weather env latitude longitude loc c)) = isConnected c"
  by (simp_all add: get_weather_def Let_def call_def split: sum.splits prod.splits)

lemma get_time_try_session:
  "client (snd (get_time_try env loc c)) = client c"
  "isConnected (snd (get_time_try env loc c)) = isConnected c"
  by (simp_all add: get_time_try_def Let_def call_def split: sum.splits)

lemma get_time_session:
  "client (snd (get_time env loc c)) = client c"
  "isConnected (snd (get_time env loc c)) = isConnected c"
proof -
  obtain r c1 where t: "get_time_try env loc c = (r, c1)"
    by (cases "get_time_try env loc c")
  from get_time_try_session [of env loc c] t
  have s: "client c1 = client c" "isConnected c1 = isConnected c" by simp_all
  have "client (snd (get_time env loc c)) = client c
      \<and> isConnected (snd (get_time env loc c)) = isConnected c"
  proof (cases r)
    case (Inl e)
    then show ?thesis using t s by (cases e) (simp_all add: get_time_def call_def)
  next
    case (Inr v)
    then show ?thesis using t s by (simp add: get_time_def)
  qed
  then show "client (snd (get_time env loc c)) = client c"
    and "isConnected (snd (get_time env loc c)) = isConnected c" by simp_all
qed

lemma handler_session:
  "client (snd (handler env t c)) = client c"
  "isConnected (snd (handler env t c)) = isConnected c"
  by (cases t; simp add: set_memory_session get_weather_session get_time_session)+

text \<open>
  The handlers of \<^verbatim>\<open>get_time\<close> and \<^verbatim>\<open>set_memory\<close> catch every exception themselves; the
  handler of \<^verbatim>\<open>get_weather\<close> has no \<^verbatim>\<open>try\<close> and rejects when its \<^verbatim>\<open>fetch\<close> does.
\<close>

lemma get_time_resolves: "\<exists>r. fst (get_time env loc c) = Inr r"
proof -
  obtain r c1 where t: "get_time_try env loc c = (r, c1)"
    by (cases "get_time_try env loc c")
  show ?thesis
  proof (cases r)
    case (Inl e)
    then show ?thesis using t by (cases e) (simp_all add: get_time_def)
  next
    case (Inr v)
    then show ?thesis using t by (simp add: get_time_def)
  qed
qed

lemma set_memory_resolves: "\<exists>r. fst (set_memory env key v c) = Inr r"
  by (simp add: set_memory_result)

lemma get_weather_rejects:
  "weather_get env = Inl e \<Longrightarrow> fst (get_weather env latitude longitude loc c) = Inl e"
  by (simp add: get_weather_def Let_def)

text \<open>
  C3, at the dispatch boundary of the spec. For each of the four registered tools, whatever
  the handler meets: the invocation resolves; when the handler's promise rejects with an
  exception, the resolved value is the object \<^verbatim>\<open>{error: <message>}\<close>, which has an
  \<^verbatim>\<open>error\<close> field; and the session is as the handler left it, the client's connection
  untouched.
\<close>

theorem C3_invoke_resolves_with_error:
  "(\<exists>v. fst (invoke env t c) = Inr v)
   \<and> (handler env t c = (Inl e, c') \<longrightarrow>
        invoke env t c = (Inr (JObject [(''error'', exn_message e)]), c')
        \<and> has_field (JObject [(''error'', exn_message e)]) ''error'')
   \<and> client (snd (invoke env t c)) = client c
   \<and> isConnected (snd (invoke env t c)) = isConnected c"
proof -
  obtain r c1 where h: "handler env t c = (r, c1)" by (cases "handler env t c")
  from handler_session [of env t c] h
  have s: "client c1 = client c" "isConnected c1 = isConnected c" by simp_all
  show ?thesis
    using h s by (cases r) (simp_all add: invoke_def has_field_def)
qed

theorem C3_invoke_resolves_with_error_witness:
  "invoke servers_down (GetWeather (JNumber (Num 48)) (JNumber (Num 2)) (JString ''Paris'')) initial_console
     = (Inr (JObject [(''error'', JString ''Failed to fetch'')]),
        snd (handler servers_down
               (GetWeather (JNumber (Num 48)) (JNumber (Num 2)) (JString ''Paris'')) initial_console))
   \<and> has_field (JObject [(''error'', JString ''Failed to fetch'')]) ''error''"
proof -
  let ?t = "GetWeather (JNumber (Num 48)) (JNumber (Num 2)) (JString ''Paris'')"
  have "fst (handler servers_down ?t initial_console) = Inl (JsError ''TypeError'' ''Failed to fetch'')"
    by (simp add: get_weather_rejects servers_down_def)
  then have h: "handler servers_down ?t initial_console
        = (Inl (JsError ''TypeError'' ''Failed to fetch''), snd (handler servers_down ?t initial_console))"
    by (metis prod.collapse)
  have m: "exn_message (JsError ''TypeError'' ''Failed to fetch'') = JString ''Failed to fetch''"
    by (simp add: exn_message_def)
  from C3_invoke_resolves_with_error
         [of servers_down ?t initial_console "JsError ''TypeError'' ''Failed to fetch''"
             "snd (handler servers_down ?t initial_console)"] h m
  show ?thesis by simp
qed

end
